theory Spec2Isabelle
  imports Main "HOL-Library.Word"
begin

section \<open>Strings of the host language\<close>

text \<open>
  A string of the validator is a sequence of 16-bit code units: \<open>length\<close>,
  \<open>substring\<close> and \<open>includes\<close> of the source all count and compare code units.
  \<open>js\<close> turns an ASCII literal into such a string.
\<close>

type_synonym jsstring = "16 word list"

definition js :: "string \<Rightarrow> jsstring" where
  "js s = map of_char s"

text \<open>\<open>hay.startsWith(needle)\<close> and \<open>hay.includes(needle)\<close>: a literal, contiguous match.\<close>

fun startsWith :: "jsstring \<Rightarrow> jsstring \<Rightarrow> bool" where
  "startsWith hay [] = True"
| "startsWith [] (n # ns) = False"
| "startsWith (h # hs) (n # ns) = (h = n \<and> startsWith hs ns)"

fun js_includes :: "jsstring \<Rightarrow> jsstring \<Rightarrow> bool" where
  "js_includes [] needle = (needle = [])"
| "js_includes (h # hs) needle = (startsWith (h # hs) needle \<or> js_includes hs needle)"

text \<open>\<open>s.split(sep)\<close> for a separator of one code unit: every occurrence cuts.\<close>

fun split_on :: "16 word \<Rightarrow> jsstring \<Rightarrow> jsstring list" where
  "split_on sep [] = [[]]"
| "split_on sep (c # cs) =
     (if c = sep then [] # split_on sep cs
      else (case split_on sep cs of [] \<Rightarrow> [[c]] | p # ps \<Rightarrow> (c # p) # ps))"


section \<open>The runtime\<close>

text \<open>
  A failed property read or method call throws a \<open>TypeError\<close>; functions that can
  throw return \<open>error + 'a\<close>.
\<close>

datatype error = TypeError

text \<open>
  Values that are not part of the rule table but that a lookup can still return: a
  function or object of the runtime (\<open>JsBuiltin\<close>, tagged with the key it was inherited
  under) and what the properties of such members hold. \<open>truthy\<close> is the test an \<open>if\<close>, \<open>!\<close>, \<open>&&\<close> or
  \<open>||\<close> applies.
\<close>

datatype jsval = JsUndefined | JsNull | JsNumber int | JsString jsstring | JsBuiltin jsstring

fun truthy :: "jsval \<Rightarrow> bool" where
  "truthy JsUndefined = False"
| "truthy JsNull = False"
| "truthy (JsNumber n) = (n \<noteq> 0)"
| "truthy (JsString s) = (s \<noteq> [])"
| "truthy (JsBuiltin b) = True"

text \<open>
  A \<open>Record\<close> of the table is a plain object. Indexing it with a key it does not
  hold answers from \<open>Object.prototype\<close>: the twelve members below, eleven functions
  and the accessor \<open>__proto__\<close>, which yields \<open>Object.prototype\<close> itself. All twelve
  are truthy. Any other key reads as \<open>undefined\<close>.
\<close>

definition objectPrototypeKeys :: "jsstring list" where
  "objectPrototypeKeys =
     [js ''constructor'', js ''__defineGetter__'', js ''__defineSetter__'',
      js ''hasOwnProperty'', js ''__lookupGetter__'', js ''__lookupSetter__'',
      js ''isPrototypeOf'', js ''propertyIsEnumerable'', js ''toString'', js ''valueOf'',
      js ''__proto__'', js ''toLocaleString'']"

datatype 'a property = Own 'a | Inherited jsstring | Missing

definition getProperty :: "(jsstring \<rightharpoonup> 'a) \<Rightarrow> jsstring \<Rightarrow> 'a property" where
  "getProperty obj key =
     (case obj key of
        Some v \<Rightarrow> Own v
      | None \<Rightarrow> (if key \<in> set objectPrototypeKeys then Inherited key else Missing))"

text \<open>
  The \<open>name\<close> of an inherited member: \<open>constructor\<close> is the function \<open>Object\<close>, the
  other functions are named by their key, and \<open>Object.prototype\<close> has no name.
\<close>

definition memberName :: "jsstring \<Rightarrow> jsstring option" where
  "memberName key =
     (if key = js ''constructor'' then Some (js ''Object'')
      else if key = js ''__proto__'' then None
      else Some key)"

text \<open>
  What the validator takes from the runtime without fixing it: \<open>toLowerCase\<close> on
  strings, and \<open>memberGet m p\<close>, the read of a property \<open>p\<close> other than \<open>name\<close>
  on the inherited member found under key \<open>m\<close> (a value, or a getter that throws).
  Which properties the members carry beyond their name depends on the version of the
  runtime. Every general statement below holds for every runtime.
\<close>

record Runtime =
  toLowerCase :: "jsstring \<Rightarrow> jsstring"
  memberGet :: "jsstring \<Rightarrow> jsstring \<Rightarrow> error + jsval"

definition readMember :: "Runtime \<Rightarrow> jsstring \<Rightarrow> jsstring \<Rightarrow> error + jsval" where
  "readMember rt m p =
     (if p = js ''name'' then
        Inr (case memberName m of Some n \<Rightarrow> JsString n | None \<Rightarrow> JsUndefined)
      else memberGet rt m p)"

text \<open>
  The runtime the examples run on. \<open>asciiLower\<close> is \<open>toLowerCase\<close> on ASCII text,
  which is all the examples lower-case. Its \<open>memberGet\<close> answers \<open>undefined\<close>
  throughout, which a real runtime does not; no example reads a property through it.
\<close>

definition asciiLower :: "jsstring \<Rightarrow> jsstring" where
  "asciiLower s = map (\<lambda>c. if 65 \<le> c \<and> c \<le> 90 then c + 32 else c) s"

definition sampleRuntime :: Runtime where
  "sampleRuntime = \<lparr> toLowerCase = asciiLower, memberGet = (\<lambda>m p. Inr JsUndefined) \<rparr>"

subsection \<open>Regular expressions\<close>

text \<open>
  A \<open>RegExp\<close> object: \<open>search i s\<close> is its matcher run on \<open>s\<close> from index \<open>i\<close>, giving
  the end of the match it finds (a sticky pattern looks at \<open>i\<close> only, any other at
  \<open>i\<close> and every later index); the two flags that make \<open>test\<close> keep a position; and
  that position, \<open>lastIndex\<close>. \<open>test\<close> returns the verdict and the object as the call
  leaves it: with either flag it starts at \<open>lastIndex\<close>, stores the end of a match
  there and resets it to 0 on failure; without them it starts at 0 and stores nothing.
\<close>

record RegExp =
  search :: "nat \<Rightarrow> jsstring \<Rightarrow> nat option"
  global :: bool
  sticky :: bool
  lastIndex :: nat

definition test :: "RegExp \<Rightarrow> jsstring \<Rightarrow> bool \<times> RegExp" where
  "test r s =
     (if global r \<or> sticky r then
        (if lastIndex r > length s then (False, r\<lparr> lastIndex := 0 \<rparr>)
         else (case search r (lastIndex r) s of
                 None \<Rightarrow> (False, r\<lparr> lastIndex := 0 \<rparr>)
               | Some e \<Rightarrow> (True, r\<lparr> lastIndex := e \<rparr>)))
      else (search r 0 s \<noteq> None, r))"

text \<open>The matcher of a pattern that is a literal text, for the examples.\<close>

fun indexOf :: "jsstring \<Rightarrow> jsstring \<Rightarrow> nat option" where
  "indexOf [] needle = (if needle = [] then Some 0 else None)"
| "indexOf (h # hs) needle =
     (if startsWith (h # hs) needle then Some 0 else map_option Suc (indexOf hs needle))"

definition literalSearch :: "jsstring \<Rightarrow> nat \<Rightarrow> jsstring \<Rightarrow> nat option" where
  "literalSearch needle i s =
     map_option (\<lambda>k. i + k + length needle) (indexOf (drop i s) needle)"

section \<open>Data model (types.ts)\<close>

datatype Platform = Telegram | Discord | Slack | Webchat

datatype Action = Ask | Allow | Block

text \<open>
  Field names that two interfaces share carry a prefix (\<open>dest_id\<close>, \<open>dest_type\<close>,
  \<open>rule_name\<close>, \<open>res_action\<close>, \<open>res_reason\<close>). The \<open>priority\<close> of a destination, a
  number that nothing reads, is an integer, and the \<open>metadata\<close> bag of a context, which
  nothing reads either, is left out. The two \<open>Record\<close>s of the table are the maps of
  the keys they hold, read through \<open>getProperty\<close>.
\<close>

record Destination =
  dest_id :: jsstring
  dest_type :: Platform
  name :: jsstring
  description :: "jsstring option"
  priority :: int

record MessageTypeRule =
  allowedIn :: "jsstring list"
  blockedIn :: "jsstring list"
  requiresConfirmation :: "jsstring list"
  contentPatterns :: "RegExp list option"
  reason :: "jsstring option"

type_synonym MessageTypeCategory = "jsstring \<rightharpoonup> MessageTypeRule"

record DetectionRule =
  rule_name :: jsstring
  patterns :: "RegExp list"
  classifyAs :: jsstring

record DefaultBehavior =
  action :: Action
  message :: "jsstring option"

record Defaults =
  unknownMessageType :: DefaultBehavior
  unknownDestination :: DefaultBehavior

record MessagingRules =
  version :: jsstring
  destinations :: "jsstring \<rightharpoonup> Destination"
  messageTypes :: "jsstring \<rightharpoonup> MessageTypeCategory"
  detectionRules :: "DetectionRule list"
  defaults :: Defaults
  overrideCode :: jsstring

record ValidationResult =
  allowed :: bool
  res_action :: Action
  res_reason :: "jsstring option"
  messageType :: "jsstring option"
  matchedRule :: "jsstring option"
  suggestedDestination :: "jsstring option"
  needsConfirmation :: "bool option"

record MessageContext =
  content :: jsstring
  destination :: jsstring
  channel :: jsstring
  isReply :: "bool option"
  threadId :: "jsstring option"

record ParsedType =
  category :: jsstring
  subtype :: jsstring

section \<open>The validator (validator.ts)\<close>

subsection \<open>detectMessageType\<close>

text \<open>
  The inner loop: the patterns of one rule are tested in order until one tests true.
  Each test may move the \<open>lastIndex\<close> of its pattern, so the loop returns the patterns
  as it leaves them; those after the hit are not touched.
\<close>

fun testPatterns :: "RegExp list \<Rightarrow> jsstring \<Rightarrow> bool \<times> RegExp list" where
  "testPatterns [] c = (False, [])"
| "testPatterns (pattern # ps) c =
     (case test pattern c of
        (True, pattern') \<Rightarrow> (True, pattern' # ps)
      | (False, pattern') \<Rightarrow>
          (case testPatterns ps c of (hit, ps') \<Rightarrow> (hit, pattern' # ps')))"

text \<open>The outer loop: the detection rules in table order; the first hit returns.\<close>

fun scanDetectionRules ::
    "DetectionRule list \<Rightarrow> jsstring \<Rightarrow> jsstring option \<times> DetectionRule list" where
  "scanDetectionRules [] c = (None, [])"
| "scanDetectionRules (rule # rs) c =
     (case testPatterns (patterns rule) c of
        (True, ps') \<Rightarrow> (Some (classifyAs rule), rule\<lparr> patterns := ps' \<rparr> # rs)
      | (False, ps') \<Rightarrow>
          (case scanDetectionRules rs c of
             (found, rs') \<Rightarrow> (found, rule\<lparr> patterns := ps' \<rparr> # rs')))"

text \<open>
  The two keywords that are not ASCII letters and spaces: the emoji U+1F9BE, a surrogate
  pair, and the phrase with an apostrophe (code unit 0x27). The fallback reads the
  lower-cased content only.
\<close>

definition robotArm :: jsstring where
  "robotArm = [0xD83E, 0xDDBE]"

definition dontForget :: jsstring where
  "dontForget = js ''don'' @ [0x27] @ js ''t forget''"

definition keywordFallback :: "jsstring \<Rightarrow> jsstring" where
  "keywordFallback lowerContent =
     (if js_includes lowerContent (js ''digest'') \<or> js_includes lowerContent robotArm
        then js ''digest.*''
      else if js_includes lowerContent (js ''reminder'') \<or> js_includes lowerContent dontForget
        then js ''reminder.*''
      else if js_includes lowerContent (js ''replying to'')
              \<or> js_includes lowerContent (js ''in response to'')
        then js ''reply.*''
      else if js_includes lowerContent (js ''revenue'')
              \<or> js_includes lowerContent (js ''business'')
        then js ''business.*''
      else js ''unknown'')"

text \<open>The detected type, and the table with the patterns as the tests left them.\<close>

definition detectMessageType ::
    "Runtime \<Rightarrow> MessagingRules \<Rightarrow> jsstring \<Rightarrow> jsstring \<times> MessagingRules" where
  "detectMessageType rt rules c =
     (let lowerContent = toLowerCase rt c in
      case scanDetectionRules (detectionRules rules) c of
        (Some t, rs') \<Rightarrow> (t, rules\<lparr> detectionRules := rs' \<rparr>)
      | (None, rs') \<Rightarrow> (keywordFallback lowerContent, rules\<lparr> detectionRules := rs' \<rparr>))"

subsection \<open>parseMessageType\<close>

text \<open>
  \<open>parts[0]\<close> and \<open>parts[1] || '*'\<close>: the second piece, unless it is missing or empty.
  \<open>split\<close> never returns an empty array, so the first case of \<open>category\<close> is dead.
\<close>

definition parseMessageType :: "jsstring \<Rightarrow> ParsedType" where
  "parseMessageType typePath =
     (let parts = split_on 0x2E typePath in
      \<lparr> category = (case parts of [] \<Rightarrow> [] | p # _ \<Rightarrow> p),
        subtype = (case parts of
                     _ # s # _ \<Rightarrow> (if s = [] then js ''*'' else s)
                   | _ \<Rightarrow> js ''*'') \<rparr>)"

subsection \<open>findRule\<close>

text \<open>
  What \<open>findRule\<close> returns: \<open>null\<close>, a rule of the table, or, since both lookups are
  plain indexing, a truthy value of the runtime that is no rule at all.
\<close>

datatype found = NoRule | Rule MessageTypeRule | NotRule jsval

text \<open>
  The second lookup when the first one found an inherited member \<open>m\<close> instead of a
  category: \<open>m[subtype]\<close> unless the subtype is \<open>*\<close>, then \<open>m['*']\<close>, each returned
  if truthy.
\<close>

definition findInMember :: "Runtime \<Rightarrow> jsstring \<Rightarrow> jsstring \<Rightarrow> error + found" where
  "findInMember rt m sub =
     (let wildcard =
            (case readMember rt m (js ''*'') of
               Inl e \<Rightarrow> Inl e
             | Inr w \<Rightarrow> Inr (if truthy w then NotRule w else NoRule))
      in if sub \<noteq> js ''*'' then
           (case readMember rt m sub of
              Inl e \<Rightarrow> Inl e
            | Inr v \<Rightarrow> (if truthy v then Inr (NotRule v) else wildcard))
         else wildcard)"

definition findRule :: "Runtime \<Rightarrow> MessagingRules \<Rightarrow> jsstring \<Rightarrow> error + found" where
  "findRule rt rules typePath =
     (let parsed = parseMessageType typePath in
      case getProperty (messageTypes rules) (category parsed) of
        Missing \<Rightarrow> Inr NoRule
      | Inherited m \<Rightarrow> findInMember rt m (subtype parsed)
      | Own categoryRules \<Rightarrow>
          (let wildcard =
                 (case getProperty categoryRules (js ''*'') of
                    Own rule \<Rightarrow> Inr (Rule rule)
                  | Inherited k \<Rightarrow> Inr (NotRule (JsBuiltin k))
                  | Missing \<Rightarrow> Inr NoRule)
           in if subtype parsed \<noteq> js ''*'' then
                (case getProperty categoryRules (subtype parsed) of
                   Own rule \<Rightarrow> Inr (Rule rule)
                 | Inherited k \<Rightarrow> Inr (NotRule (JsBuiltin k))
                 | Missing \<Rightarrow> wildcard)
              else wildcard))"

subsection \<open>Destinations\<close>

definition matchesDestination :: "jsstring \<Rightarrow> jsstring \<Rightarrow> bool" where
  "matchesDestination destId pattern = (if pattern = js ''*'' then True else destId = pattern)"

fun isDestinationInList :: "jsstring \<Rightarrow> jsstring list \<Rightarrow> bool" where
  "isDestinationInList destId [] = False"
| "isDestinationInList destId (pattern # ps) =
     (matchesDestination destId pattern \<or> isDestinationInList destId ps)"

text \<open>
  \<open>dest?.name || destId\<close>: the id stands in for a missing entry and for an empty or
  missing name; an inherited member answers with its own name.
\<close>

definition getDestinationName :: "MessagingRules \<Rightarrow> jsstring \<Rightarrow> jsstring" where
  "getDestinationName rules destId =
     (case getProperty (destinations rules) destId of
        Missing \<Rightarrow> destId
      | Own dest \<Rightarrow> (if name dest = [] then destId else name dest)
      | Inherited k \<Rightarrow> (case memberName k of None \<Rightarrow> destId | Some n \<Rightarrow> n))"

subsection \<open>validate\<close>

text \<open>
  The branches of \<open>validate\<close> in the order of the source; the first that applies
  returns. A field that a branch does not set is \<open>None\<close>, as is the suggested
  destination read from an empty allowedIn list. \<open>ruleLabel\<close> is the template
  \<open>category.subtype\<close> of matchedRule, and \<open>!isReply\<close> holds for a missing flag too.
  The destination counts as known when the lookup finds anything, own or inherited.
  A value that is no rule has no \<open>blockedIn\<close>, so the blocked-list test calls
  \<open>some\<close> on \<open>undefined\<close> and throws (the \<open>NoRule\<close> case there is dead:
  it has returned above). The second component is the table as the call leaves it:
  detection is the only step that changes it.
\<close>

definition ruleLabel :: "ParsedType \<Rightarrow> jsstring" where
  "ruleLabel parsed = category parsed @ js ''.'' @ subtype parsed"

definition validate ::
    "Runtime \<Rightarrow> MessagingRules \<Rightarrow> MessageContext
       \<Rightarrow> (error + ValidationResult) \<times> MessagingRules" where
  "validate rt rules context =
     (if js_includes (content context) (overrideCode rules) then
        (Inr \<lparr> allowed = True, res_action = Allow,
               res_reason = Some (js ''Override code used''),
               messageType = None, matchedRule = None, suggestedDestination = None,
               needsConfirmation = None \<rparr>,
         rules)
      else
        (case detectMessageType rt rules (content context) of
           (detectedType, rules') \<Rightarrow>
             (let parsed = parseMessageType detectedType in
              case findRule rt rules' detectedType of
                Inl e \<Rightarrow> Inl e
              | Inr NoRule \<Rightarrow>
                  Inr \<lparr> allowed = False,
                        res_action = action (unknownMessageType (defaults rules')),
                        res_reason = Some (js ''No rules for message type: '' @ detectedType),
                        messageType = Some detectedType, matchedRule = None,
                        suggestedDestination = None, needsConfirmation = Some True \<rparr>
              | Inr hit \<Rightarrow>
                  if getProperty (destinations rules') (destination context) = Missing then
                    Inr \<lparr> allowed = False,
                          res_action = action (unknownDestination (defaults rules')),
                          res_reason = Some (js ''Unknown destination: '' @ destination context),
                          messageType = Some detectedType, matchedRule = None,
                          suggestedDestination = None, needsConfirmation = Some True \<rparr>
                  else
                    (case hit of
                       NotRule v \<Rightarrow> Inl TypeError
                     | NoRule \<Rightarrow> Inl TypeError
                     | Rule rule \<Rightarrow>
                         if isDestinationInList (destination context) (blockedIn rule) then
                           Inr \<lparr> allowed = False, res_action = Block,
                                 res_reason = Some
                                   (case reason rule of
                                      Some r \<Rightarrow>
                                        (if r = [] then
                                           detectedType @ js '' is blocked in ''
                                             @ getDestinationName rules' (destination context)
                                         else r)
                                    | None \<Rightarrow>
                                        detectedType @ js '' is blocked in ''
                                          @ getDestinationName rules' (destination context)),
                                 messageType = Some detectedType,
                                 matchedRule = Some (ruleLabel parsed),
                                 suggestedDestination =
                                   (case allowedIn rule of [] \<Rightarrow> None | d # _ \<Rightarrow> Some d),
                                 needsConfirmation = Some True \<rparr>
                         else if isReply context \<noteq> Some True
                                 \<and> isDestinationInList (destination context)
                                       (requiresConfirmation rule) then
                           Inr \<lparr> allowed = False, res_action = Ask,
                                 res_reason = Some
                                   (getDestinationName rules' (destination context)
                                      @ js '' requires confirmation for '' @ detectedType),
                                 messageType = Some detectedType,
                                 matchedRule = Some (ruleLabel parsed),
                                 suggestedDestination = None, needsConfirmation = Some True \<rparr>
                         else if isDestinationInList (destination context) (allowedIn rule) then
                           Inr \<lparr> allowed = True, res_action = Allow, res_reason = None,
                                 messageType = Some detectedType,
                                 matchedRule = Some (ruleLabel parsed),
                                 suggestedDestination = None, needsConfirmation = None \<rparr>
                         else
                           Inr \<lparr> allowed = False, res_action = Ask,
                                 res_reason = Some
                                   (detectedType @ js '' not explicitly allowed in ''
                                      @ getDestinationName rules' (destination context)),
                                 messageType = Some detectedType, matchedRule = None,
                                 suggestedDestination = None, needsConfirmation = Some True \<rparr>),
              rules')))"

subsection \<open>formatConfirmation\<close>

text \<open>
  A template literal prints a missing optional field as the text \<open>undefined\<close>.
  \<open>substring(0, 100)\<close> is \<open>take 100\<close>, and the suggested line is added for a
  suggested destination that is present and not the empty string.
\<close>

definition interpolate :: "jsstring option \<Rightarrow> jsstring" where
  "interpolate x = (case x of None \<Rightarrow> js ''undefined'' | Some s \<Rightarrow> s)"

definition nl :: jsstring where
  "nl = [0x0A]"

definition warningSign :: jsstring where
  "warningSign = [0x26A0, 0xFE0F]"

definition formatConfirmation ::
    "MessagingRules \<Rightarrow> MessageContext \<Rightarrow> ValidationResult \<Rightarrow> jsstring" where
  "formatConfirmation rules context result =
     (let destName = getDestinationName rules (destination context);
          preview = take 100 (content context)
                      @ (if length (content context) > 100 then js ''...'' else []);
          msg = warningSign @ js '' **Send Confirmation Required**'' @ nl @ nl;
          msg = msg @ js ''**To:** '' @ destName @ nl;
          msg = msg @ js ''**Type:** '' @ interpolate (messageType result) @ nl;
          msg = msg @ js ''**Reason:** '' @ interpolate (res_reason result) @ nl @ nl;
          msg = msg @ js ''**Message:**'' @ nl @ preview @ nl @ nl;
          msg = (case suggestedDestination result of
                   None \<Rightarrow> msg
                 | Some s \<Rightarrow>
                     (if s = [] then msg
                      else msg @ js ''**Suggested:** '' @ getDestinationName rules s @ nl @ nl));
          msg = msg @ js ''Reply **YES** to send, **NO** to cancel.''
      in msg)"

text \<open>
  The template around the preview, for stating what \<open>formatConfirmation\<close> embeds:
  everything before the preview and everything after it. Neither reads the content.
\<close>

definition templateHead :: "MessagingRules \<Rightarrow> jsstring \<Rightarrow> ValidationResult \<Rightarrow> jsstring" where
  "templateHead rules dest result =
     warningSign @ js '' **Send Confirmation Required**'' @ nl @ nl
       @ js ''**To:** '' @ getDestinationName rules dest @ nl
       @ js ''**Type:** '' @ interpolate (messageType result) @ nl
       @ js ''**Reason:** '' @ interpolate (res_reason result) @ nl @ nl
       @ js ''**Message:**'' @ nl"

definition templateTail :: "MessagingRules \<Rightarrow> ValidationResult \<Rightarrow> jsstring" where
  "templateTail rules result =
     nl @ nl
       @ (case suggestedDestination result of
            None \<Rightarrow> []
          | Some s \<Rightarrow>
              (if s = [] then []
               else js ''**Suggested:** '' @ getDestinationName rules s @ nl @ nl))
       @ js ''Reply **YES** to send, **NO** to cancel.''"

section \<open>A sample rule table\<close>

text \<open>
  A table in the shape of the shipped configuration: two destinations, a wildcard and a
  specific rule under \<open>digest\<close>, a wildcard rule under \<open>business\<close> that lists
  \<open>work_group\<close> as blocked and as allowed, one detection rule (the literal pattern
  \<open>r/\<close>, without flags) and the override code of the send script.
\<close>

definition bossDm :: Destination where
  "bossDm = \<lparr> dest_id = js ''111'', dest_type = Telegram, name = js ''Boss DM'',
              description = None, priority = 1 \<rparr>"

definition workGroup :: Destination where
  "workGroup = \<lparr> dest_id = js ''222'', dest_type = Telegram, name = js ''Work Group'',
                 description = None, priority = 2 \<rparr>"

definition digestAny :: MessageTypeRule where
  "digestAny = \<lparr> allowedIn = [js ''boss_dm''], blockedIn = [],
                 requiresConfirmation = [js ''work_group''], contentPatterns = None,
                 reason = None \<rparr>"

definition digestReddit :: MessageTypeRule where
  "digestReddit = \<lparr> allowedIn = [js ''boss_dm'', js ''work_group''], blockedIn = [],
                    requiresConfirmation = [js ''work_group''], contentPatterns = None,
                    reason = None \<rparr>"

definition businessAny :: MessageTypeRule where
  "businessAny = \<lparr> allowedIn = [js ''boss_dm'', js ''work_group'', js ''nowhere''],
                   blockedIn = [js ''work_group'', js ''nowhere''],
                   requiresConfirmation = [], contentPatterns = None,
                   reason = Some (js ''Business talk stays with the boss'') \<rparr>"

definition redditPattern :: RegExp where
  "redditPattern = \<lparr> search = literalSearch (js ''r/''), global = False, sticky = False,
                     lastIndex = 0 \<rparr>"

definition redditDetection :: DetectionRule where
  "redditDetection = \<lparr> rule_name = js ''reddit'', patterns = [redditPattern],
                       classifyAs = js ''digest.reddit'' \<rparr>"

definition digestCategory :: MessageTypeCategory where
  "digestCategory = [js ''*'' \<mapsto> digestAny, js ''reddit'' \<mapsto> digestReddit]"

definition businessCategory :: MessageTypeCategory where
  "businessCategory = [js ''*'' \<mapsto> businessAny]"

definition exampleRules :: MessagingRules where
  "exampleRules =
     \<lparr> version = js ''1.0'',
       destinations = [js ''boss_dm'' \<mapsto> bossDm, js ''work_group'' \<mapsto> workGroup],
       messageTypes = [js ''digest'' \<mapsto> digestCategory, js ''business'' \<mapsto> businessCategory],
       detectionRules = [redditDetection],
       defaults = \<lparr> unknownMessageType = \<lparr> action = Block, message = None \<rparr>,
                    unknownDestination = \<lparr> action = Ask, message = None \<rparr> \<rparr>,
       overrideCode = js ''BOSS_OVERRIDE'' \<rparr>"

text \<open>
  A message for the channel \<open>telegram\<close>, not a reply, from ASCII text.
\<close>

definition msg :: "string \<Rightarrow> string \<Rightarrow> MessageContext" where
  "msg text dest = \<lparr> content = js text, destination = js dest, channel = js ''telegram'',
                      isReply = None, threadId = None \<rparr>"

text \<open>
  Variants of the table: another default for unknown types, a rule for the type
  \<open>unknown\<close>, a rule whose \<open>reason\<close> is the empty string, and the detection
  pattern with the global flag.
\<close>

definition allowByDefault :: MessagingRules where
  "allowByDefault =
     exampleRules\<lparr> defaults :=
       \<lparr> unknownMessageType = \<lparr> action = Allow, message = None \<rparr>,
         unknownDestination = \<lparr> action = Ask, message = None \<rparr> \<rparr> \<rparr>"



definition rulesEmptyReason :: MessagingRules where
  "rulesEmptyReason =
     exampleRules\<lparr> messageTypes :=
       [js ''business'' \<mapsto> [js ''*'' \<mapsto> businessAny\<lparr> reason := Some [] \<rparr>]] \<rparr>"

definition globalRedditRules :: MessagingRules where
  "globalRedditRules =
     exampleRules\<lparr> detectionRules :=
       [redditDetection\<lparr> patterns := [redditPattern\<lparr> global := True \<rparr>] \<rparr>] \<rparr>"

section \<open>Facts about the helpers\<close>

text \<open>
  \<open>js_includes\<close> is containment as a contiguous piece, and \<open>split_on\<close> cuts at the
  first separator and goes on in the rest.
\<close>

lemma startsWith_iff: "startsWith hay needle \<longleftrightarrow> (\<exists>s. hay = needle @ s)"
  by (induction hay needle rule: startsWith.induct) auto

lemma js_includes_iff: "js_includes hay needle \<longleftrightarrow> (\<exists>p s. hay = p @ needle @ s)"
proof (induction hay)
  case Nil
  show ?case by auto
next
  case (Cons h hs)
  have "(\<exists>p s. h # hs = p @ needle @ s)
          \<longleftrightarrow> (\<exists>s. h # hs = needle @ s) \<or> (\<exists>p s. hs = p @ needle @ s)"
  proof
    assume "\<exists>p s. h # hs = p @ needle @ s"
    then obtain p s where eq: "h # hs = p @ needle @ s" by blast
    show "(\<exists>s. h # hs = needle @ s) \<or> (\<exists>p s. hs = p @ needle @ s)"
    proof (cases p)
      case Nil
      with eq show ?thesis by auto
    next
      case (Cons a p')
      with eq have "hs = p' @ needle @ s" by simp
      then show ?thesis by blast
    qed
  next
    assume "(\<exists>s. h # hs = needle @ s) \<or> (\<exists>p s. hs = p @ needle @ s)"
    then show "\<exists>p s. h # hs = p @ needle @ s"
    proof
      assume "\<exists>s. h # hs = needle @ s"
      then obtain s where "h # hs = [] @ needle @ s" by auto
      then show ?thesis by blast
    next
      assume "\<exists>p s. hs = p @ needle @ s"
      then obtain p s where "h # hs = (h # p) @ needle @ s" by auto
      then show ?thesis by blast
    qed
  qed
  with Cons show ?case by (simp add: startsWith_iff)
qed

lemma js_includes_empty: "js_includes hay []"
  by (cases hay) simp_all

lemma split_on_unfold:
  "split_on sep s = takeWhile (\<lambda>c. c \<noteq> sep) s
       # (case dropWhile (\<lambda>c. c \<noteq> sep) s of [] \<Rightarrow> [] | _ # r \<Rightarrow> split_on sep r)"
  by (induction s) (auto split: list.splits)

lemma isDestinationInList_iff:
  "isDestinationInList destId ps \<longleftrightarrow> (\<exists>p \<in> set ps. p = js ''*'' \<or> p = destId)"
  by (induction ps) (auto simp: matchesDestination_def)


text \<open>
  A lookup misses exactly the keys that are neither held nor inherited; \<open>*\<close> and
  \<open>unknown\<close> are not inherited.
\<close>

lemma getProperty_Own: "obj key = Some v \<Longrightarrow> getProperty obj key = Own v"
  by (simp add: getProperty_def)

lemma getProperty_Missing_iff:
  "getProperty obj key = Missing \<longleftrightarrow> obj key = None \<and> key \<notin> set objectPrototypeKeys"
  by (simp add: getProperty_def split: option.split)

lemma getProperty_plain:
  "key \<notin> set objectPrototypeKeys \<Longrightarrow>
     getProperty obj key = (case obj key of None \<Rightarrow> Missing | Some v \<Rightarrow> Own v)"
  by (simp add: getProperty_def split: option.split)

lemma star_not_inherited: "js ''*'' \<notin> set objectPrototypeKeys"
  by (simp add: objectPrototypeKeys_def js_def)


text \<open>
  Detection changes nothing of the table but the patterns, so every later lookup of the
  same call reads what the caller passed.
\<close>

lemma detect_keeps_table:
  "messageTypes (snd (detectMessageType rt rules c)) = messageTypes rules"
  "destinations (snd (detectMessageType rt rules c)) = destinations rules"
  "defaults (snd (detectMessageType rt rules c)) = defaults rules"
  "overrideCode (snd (detectMessageType rt rules c)) = overrideCode rules"
  by (simp_all add: detectMessageType_def Let_def split: prod.split option.split)

lemma findRule_after_detect:
  "findRule rt (snd (detectMessageType rt rules c)) t = findRule rt rules t"
  by (simp add: findRule_def detect_keeps_table)

lemma getDestinationName_after_detect:
  "getDestinationName (snd (detectMessageType rt rules c)) d = getDestinationName rules d"
  by (simp add: getDestinationName_def detect_keeps_table)

text \<open>
  The two loops find the first rule with a pattern that tests true. A pattern whose
  \<open>lastIndex\<close> is 0, or that has neither flag, tests true exactly when its matcher
  finds a match from the start.
\<close>

lemma testPatterns_iff: "fst (testPatterns ps c) \<longleftrightarrow> (\<exists>p \<in> set ps. fst (test p c))"
  by (induction ps) (auto split: prod.splits bool.splits)

lemma scan_None_iff:
  "fst (scanDetectionRules rs c) = None
     \<longleftrightarrow> (\<forall>r \<in> set rs. \<forall>p \<in> set (patterns r). \<not> fst (test p c))"
proof (induction rs)
  case Nil
  show ?case by simp
next
  case (Cons r rs)
  obtain hit ps' where t: "testPatterns (patterns r) c = (hit, ps')" by (cases "testPatterns (patterns r) c")
  then have h: "hit \<longleftrightarrow> (\<exists>p \<in> set (patterns r). fst (test p c))"
    using testPatterns_iff [of "patterns r" c] by simp
  show ?case
  proof (cases hit)
    case True
    with t h show ?thesis by auto
  next
    case False
    with t h Cons show ?thesis by (auto split: prod.splits)
  qed
qed

lemma scan_first:
  assumes "\<forall>r' \<in> set rs1. \<forall>p \<in> set (patterns r'). \<not> fst (test p c)"
    and "\<exists>p \<in> set (patterns r). fst (test p c)"
  shows "fst (scanDetectionRules (rs1 @ r # rs2) c) = Some (classifyAs r)"
  using assms
proof (induction rs1)
  case Nil
  then have "fst (testPatterns (patterns r) c)" by (simp add: testPatterns_iff)
  then show ?case by (auto split: prod.splits bool.splits)
next
  case (Cons a rs1)
  then have "\<not> fst (testPatterns (patterns a) c)" by (simp add: testPatterns_iff)
  with Cons show ?case by (auto split: prod.splits bool.splits)
qed

lemma first_match_split:
  "\<exists>x \<in> set xs. P x \<Longrightarrow>
     \<exists>xs1 x xs2. xs = xs1 @ x # xs2 \<and> (\<forall>y \<in> set xs1. \<not> P y) \<and> P x"
  by (metis split_list_first_prop)

lemma test_from_start:
  "global p \<or> sticky p \<longrightarrow> lastIndex p = 0 \<Longrightarrow> fst (test p c) \<longleftrightarrow> search p 0 c \<noteq> None"
  by (auto simp: test_def split: option.splits)


lemmas example_defs =
  exampleRules_def msg_def bossDm_def workGroup_def digestAny_def digestReddit_def
  businessAny_def redditDetection_def redditPattern_def digestCategory_def
  businessCategory_def

lemmas model_defs =
  validate_def detectMessageType_def keywordFallback_def findRule_def findInMember_def
  parseMessageType_def getDestinationName_def getProperty_def objectPrototypeKeys_def
  memberName_def matchesDestination_def ruleLabel_def robotArm_def dontForget_def
  test_def literalSearch_def sampleRuntime_def readMember_def asciiLower_def js_def Let_def

section \<open>The override code\<close>

text \<open>
  C1. Whenever the content contains the table's override code as a literal substring
  (\<open>content = before @ overrideCode @ after\<close>), \<open>validate\<close> returns allowed, action
  \<open>allow\<close>, reason "Override code used" and nothing else, and leaves the table as it
  was, for every table, every destination, every reply flag and every runtime: no
  classification, rule lookup or destination check has a say.
\<close>

theorem override_code_allows:
  assumes "content context = before @ overrideCode rules @ after"
  shows "validate rt rules context =
           (Inr \<lparr> allowed = True, res_action = Allow,
                  res_reason = Some (js ''Override code used''),
                  messageType = None, matchedRule = None, suggestedDestination = None,
                  needsConfirmation = None \<rparr>,
            rules)"
proof -
  from assms have "js_includes (content context) (overrideCode rules)"
    unfolding js_includes_iff by blast
  then show ?thesis by (simp add: validate_def)
qed

theorem override_code_allows_witness:
  "content (msg ''urgent BOSS_OVERRIDE now'' ''anything'')
     = js ''urgent '' @ overrideCode exampleRules @ js '' now''
   \<and> validate sampleRuntime exampleRules (msg ''urgent BOSS_OVERRIDE now'' ''anything'')
       = (Inr \<lparr> allowed = True, res_action = Allow,
                res_reason = Some (js ''Override code used''),
                messageType = None, matchedRule = None, suggestedDestination = None,
                needsConfirmation = None \<rparr>,
          exampleRules)"
proof -
  have h: "content (msg ''urgent BOSS_OVERRIDE now'' ''anything'')
             = js ''urgent '' @ overrideCode exampleRules @ js '' now''"
    by (simp add: example_defs js_def)
  from override_code_allows [OF h] h show ?thesis by blast
qed

section \<open>Unknown destinations and unknown types\<close>




section \<open>The blocked list\<close>

text \<open>
  C3, as amended. When the override code is absent from the content, \<open>findRule\<close>
  returns a rule for the detected type and the destination is listed in the table, a
  destination matching a pattern of the rule's blockedIn list is blocked, whether or not
  it also matches a pattern of allowedIn: not allowed, action \<open>block\<close>, the rule's
  reason when it is present and not empty and the generated
  "<type> is blocked in <display name>" otherwise, matchedRule "<category>.<subtype>",
  the first entry of allowedIn as suggested destination (none for an empty list) and
  needsConfirmation set.
\<close>

theorem blocked_list_wins:
  assumes "\<not> js_includes (content context) (overrideCode rules)"
    and "findRule rt rules (fst (detectMessageType rt rules (content context))) = Inr (Rule rule)"
    and "destinations rules (destination context) \<noteq> None"
    and "isDestinationInList (destination context) (blockedIn rule)"
  shows "validate rt rules context =
           (Inr \<lparr> allowed = False, res_action = Block,
                  res_reason = Some
                    (if reason rule = None \<or> reason rule = Some []
                     then fst (detectMessageType rt rules (content context))
                            @ js '' is blocked in ''
                            @ getDestinationName rules (destination context)
                     else (case reason rule of Some r \<Rightarrow> r | None \<Rightarrow> [])),
                  messageType = Some (fst (detectMessageType rt rules (content context))),
                  matchedRule = Some
                    (category (parseMessageType
                                 (fst (detectMessageType rt rules (content context))))
                       @ js ''.''
                       @ subtype (parseMessageType
                                    (fst (detectMessageType rt rules (content context))))),
                  suggestedDestination =
                    (case allowedIn rule of [] \<Rightarrow> None | d # _ \<Rightarrow> Some d),
                  needsConfirmation = Some True \<rparr>,
            snd (detectMessageType rt rules (content context)))"
proof -
  from assms(3) have k: "getProperty (destinations rules) (destination context) \<noteq> Missing"
    by (simp add: getProperty_Missing_iff)
  show ?thesis
    using assms(1,2,4) k
    by (auto simp: validate_def Let_def case_prod_beta findRule_after_detect detect_keeps_table
                   getDestinationName_after_detect ruleLabel_def
             split: option.splits)
qed

theorem blocked_list_wins_witness:
  "\<not> js_includes (content (msg ''quarterly revenue report'' ''work_group''))
        (overrideCode exampleRules)
   \<and> findRule sampleRuntime exampleRules
         (fst (detectMessageType sampleRuntime exampleRules
                 (content (msg ''quarterly revenue report'' ''work_group''))))
       = Inr (Rule businessAny)
   \<and> destinations exampleRules (destination (msg ''quarterly revenue report'' ''work_group''))
       \<noteq> None
   \<and> isDestinationInList (destination (msg ''quarterly revenue report'' ''work_group''))
         (blockedIn businessAny)
   \<and> isDestinationInList (destination (msg ''quarterly revenue report'' ''work_group''))
         (allowedIn businessAny)
   \<and> fst (validate sampleRuntime exampleRules (msg ''quarterly revenue report'' ''work_group''))
       = Inr \<lparr> allowed = False, res_action = Block,
               res_reason = Some (js ''Business talk stays with the boss''),
               messageType = Some (js ''business.*''), matchedRule = Some (js ''business.*''),
               suggestedDestination = Some (js ''boss_dm''), needsConfirmation = Some True \<rparr>"
proof -
  let ?m = "msg ''quarterly revenue report'' ''work_group''"
  have o: "\<not> js_includes (content ?m) (overrideCode exampleRules)"
    by (simp add: example_defs js_def)
  have d: "fst (detectMessageType sampleRuntime exampleRules (content ?m)) = js ''business.*''"
    by (simp add: example_defs model_defs)
  have f: "findRule sampleRuntime exampleRules
             (fst (detectMessageType sampleRuntime exampleRules (content ?m)))
             = Inr (Rule businessAny)"
    unfolding d
    by (simp add: exampleRules_def businessCategory_def findRule_def parseMessageType_def
                  getProperty_def js_def)
  have k: "destinations exampleRules (destination ?m) \<noteq> None"
    by (simp add: example_defs js_def)
  have b: "isDestinationInList (destination ?m) (blockedIn businessAny)"
    by (simp add: example_defs matchesDestination_def js_def)
  have a: "isDestinationInList (destination ?m) (allowedIn businessAny)"
    by (simp add: example_defs matchesDestination_def js_def)
  from blocked_list_wins [OF o f k b]
  have r: "fst (validate sampleRuntime exampleRules ?m)
       = Inr \<lparr> allowed = False, res_action = Block,
               res_reason = Some (js ''Business talk stays with the boss''),
               messageType = Some (js ''business.*''), matchedRule = Some (js ''business.*''),
               suggestedDestination = Some (js ''boss_dm''), needsConfirmation = Some True \<rparr>"
    unfolding d by (simp add: businessAny_def parseMessageType_def js_def)
  from o f k b a r show ?thesis by blast
qed

text \<open>
  C3 as stated fails at three inputs. A destination named in both lists of the rule but
  not listed in the table gets the unknown-destination default (\<open>ask\<close> here), not
  \<open>block\<close>. A rule whose reason is the empty string gets the generated reason. A
  content with the override code is allowed.
\<close>

theorem blocked_list_wins_counterexample:
  "findRule sampleRuntime exampleRules
       (fst (detectMessageType sampleRuntime exampleRules
               (content (msg ''quarterly revenue report'' ''nowhere''))))
     = Inr (Rule businessAny)
   \<and> isDestinationInList (destination (msg ''quarterly revenue report'' ''nowhere''))
         (blockedIn businessAny)
   \<and> isDestinationInList (destination (msg ''quarterly revenue report'' ''nowhere''))
         (allowedIn businessAny)
   \<and> fst (validate sampleRuntime exampleRules (msg ''quarterly revenue report'' ''nowhere''))
       = Inr \<lparr> allowed = False, res_action = Ask,
               res_reason = Some (js ''Unknown destination: nowhere''),
               messageType = Some (js ''business.*''), matchedRule = None,
               suggestedDestination = None, needsConfirmation = Some True \<rparr>
   \<and> findRule sampleRuntime rulesEmptyReason
         (fst (detectMessageType sampleRuntime rulesEmptyReason
                 (content (msg ''quarterly revenue report'' ''work_group''))))
       = Inr (Rule (businessAny\<lparr> reason := Some [] \<rparr>))
   \<and> fst (validate sampleRuntime rulesEmptyReason
             (msg ''quarterly revenue report'' ''work_group''))
       = Inr \<lparr> allowed = False, res_action = Block,
               res_reason = Some (js ''business.* is blocked in Work Group''),
               messageType = Some (js ''business.*''), matchedRule = Some (js ''business.*''),
               suggestedDestination = Some (js ''boss_dm''), needsConfirmation = Some True \<rparr>
   \<and> fst (validate sampleRuntime exampleRules (msg ''BOSS_OVERRIDE revenue'' ''work_group''))
       = Inr \<lparr> allowed = True, res_action = Allow,
               res_reason = Some (js ''Override code used''),
               messageType = None, matchedRule = None, suggestedDestination = None,
               needsConfirmation = None \<rparr>"
  by (simp add: example_defs rulesEmptyReason_def model_defs)

section \<open>No rule for the detected type\<close>

text \<open>
  C4. When the override code is absent from the content and \<open>findRule\<close> returns none
  for the detected type, \<open>validate\<close> returns not allowed, the action of the table's
  unknown-type default whatever it is, the reason "No rules for message type: <type>"
  and needsConfirmation set.
\<close>

theorem no_rule_uses_unknown_type_default:
  assumes "\<not> js_includes (content context) (overrideCode rules)"
    and "findRule rt rules (fst (detectMessageType rt rules (content context))) = Inr NoRule"
  shows "validate rt rules context =
           (Inr \<lparr> allowed = False,
                  res_action = action (unknownMessageType (defaults rules)),
                  res_reason = Some (js ''No rules for message type: ''
                                       @ fst (detectMessageType rt rules (content context))),
                  messageType = Some (fst (detectMessageType rt rules (content context))),
                  matchedRule = None, suggestedDestination = None,
                  needsConfirmation = Some True \<rparr>,
            snd (detectMessageType rt rules (content context)))"
  using assms
  by (simp add: validate_def Let_def case_prod_beta findRule_after_detect detect_keeps_table)

theorem no_rule_uses_unknown_type_default_witness:
  "\<not> js_includes (content (msg ''weekly summary'' ''boss_dm'')) (overrideCode allowByDefault)
   \<and> findRule sampleRuntime allowByDefault
         (fst (detectMessageType sampleRuntime allowByDefault
                 (content (msg ''weekly summary'' ''boss_dm''))))
       = Inr NoRule
   \<and> fst (validate sampleRuntime allowByDefault (msg ''weekly summary'' ''boss_dm''))
       = Inr \<lparr> allowed = False, res_action = Allow,
               res_reason = Some (js ''No rules for message type: unknown''),
               messageType = Some (js ''unknown''), matchedRule = None,
               suggestedDestination = None, needsConfirmation = Some True \<rparr>"
proof -
  let ?m = "msg ''weekly summary'' ''boss_dm''"
  have h1: "\<not> js_includes (content ?m) (overrideCode allowByDefault)"
    by (simp add: example_defs allowByDefault_def js_def)
  have d: "fst (detectMessageType sampleRuntime allowByDefault (content ?m)) = js ''unknown''"
    by (simp add: example_defs allowByDefault_def model_defs)
  have h2: "findRule sampleRuntime allowByDefault
              (fst (detectMessageType sampleRuntime allowByDefault (content ?m))) = Inr NoRule"
    unfolding d by (simp add: example_defs allowByDefault_def model_defs)
  have a: "action (unknownMessageType (defaults allowByDefault)) = Allow"
    by (simp add: allowByDefault_def)
  from no_rule_uses_unknown_type_default [OF h1 h2]
  have "fst (validate sampleRuntime allowByDefault ?m)
       = Inr \<lparr> allowed = False, res_action = Allow,
               res_reason = Some (js ''No rules for message type: unknown''),
               messageType = Some (js ''unknown''), matchedRule = None,
               suggestedDestination = None, needsConfirmation = Some True \<rparr>"
    unfolding d a by (simp add: js_def)
  with h1 h2 show ?thesis by blast
qed

section \<open>Type paths\<close>

text \<open>
  C5, as amended. The category is the text before the first dot. The subtype is the text
  between the first and the second dot (up to the end when there is no second dot), and
  \<open>*\<close> when there is no dot or when that text is empty. So "unknown" parses to
  (unknown, *), "a.b.c" to (a, b) and "a." to (a, *).
\<close>

theorem parseMessageType_takes_two_pieces:
  "category (parseMessageType typePath) = takeWhile (\<lambda>c. c \<noteq> 0x2E) typePath
   \<and> subtype (parseMessageType typePath) =
       (if takeWhile (\<lambda>c. c \<noteq> 0x2E) (drop 1 (dropWhile (\<lambda>c. c \<noteq> 0x2E) typePath)) = []
        then js ''*''
        else takeWhile (\<lambda>c. c \<noteq> 0x2E) (drop 1 (dropWhile (\<lambda>c. c \<noteq> 0x2E) typePath)))
   \<and> parseMessageType (js ''unknown'') = \<lparr> category = js ''unknown'', subtype = js ''*'' \<rparr>
   \<and> parseMessageType (js ''a.b.c'') = \<lparr> category = js ''a'', subtype = js ''b'' \<rparr>
   \<and> parseMessageType (js ''a.'') = \<lparr> category = js ''a'', subtype = js ''*'' \<rparr>"
proof -
  have cat: "category (parseMessageType typePath) = takeWhile (\<lambda>c. c \<noteq> 0x2E) typePath"
    unfolding parseMessageType_def by (subst split_on_unfold) (simp add: Let_def)
  have sub: "subtype (parseMessageType typePath) =
       (if takeWhile (\<lambda>c. c \<noteq> 0x2E) (drop 1 (dropWhile (\<lambda>c. c \<noteq> 0x2E) typePath)) = []
        then js ''*''
        else takeWhile (\<lambda>c. c \<noteq> 0x2E) (drop 1 (dropWhile (\<lambda>c. c \<noteq> 0x2E) typePath)))"
  proof (cases "dropWhile (\<lambda>c. c \<noteq> 0x2E) typePath")
    case Nil
    have "split_on 0x2E typePath = [takeWhile (\<lambda>c. c \<noteq> 0x2E) typePath]"
      using split_on_unfold [of "0x2E" typePath] unfolding Nil by simp
    then show ?thesis unfolding Nil by (simp add: parseMessageType_def)
  next
    case (Cons d rest)
    have "split_on 0x2E typePath
                 = takeWhile (\<lambda>c. c \<noteq> 0x2E) typePath # split_on 0x2E rest"
      using split_on_unfold [of "0x2E" typePath] unfolding Cons by simp
    also have "split_on 0x2E rest = takeWhile (\<lambda>c. c \<noteq> 0x2E) rest
         # (case dropWhile (\<lambda>c. c \<noteq> 0x2E) rest of [] \<Rightarrow> [] | _ # r \<Rightarrow> split_on 0x2E r)"
      by (rule split_on_unfold)
    finally show ?thesis unfolding Cons by (simp add: parseMessageType_def)
  qed
  have ex1: "parseMessageType (js ''unknown'') = \<lparr> category = js ''unknown'', subtype = js ''*'' \<rparr>"
    by (simp add: parseMessageType_def js_def)
  have ex2: "parseMessageType (js ''a.b.c'') = \<lparr> category = js ''a'', subtype = js ''b'' \<rparr>"
    by (simp add: parseMessageType_def js_def)
  have ex3: "parseMessageType (js ''a.'') = \<lparr> category = js ''a'', subtype = js ''*'' \<rparr>"
    by (simp add: parseMessageType_def js_def)
  from cat sub ex1 ex2 ex3 show ?thesis by blast
qed

text \<open>
  C5 as stated fails at "a.b.c": the subtype is "b", not the remainder "b.c".
\<close>

theorem parseMessageType_remainder_counterexample:
  "subtype (parseMessageType (js ''a.b.c'')) = js ''b''
   \<and> subtype (parseMessageType (js ''a.b.c'')) \<noteq> js ''b.c''"
  by (simp add: parseMessageType_def js_def)

section \<open>Classification\<close>

text \<open>
  When every pattern with the global or sticky flag stands at \<open>lastIndex\<close> 0, as in
  a table that has not been used, classification follows the matchers: if a pattern of
  a detection rule matches the content, the rules split into those before the first
  matching rule, none of which matches, that rule, and the rest, and the detected type
  is its \<open>classifyAs\<close> for every runtime; if none matches, it is the keyword chain on
  the lower-cased content.
\<close>

lemma detection_rules_before_keywords:
  assumes fresh: "\<forall>r \<in> set (detectionRules rules). \<forall>p \<in> set (patterns r).
                    global p \<or> sticky p \<longrightarrow> lastIndex p = 0"
  shows "((\<exists>r \<in> set (detectionRules rules). \<exists>p \<in> set (patterns r). search p 0 c \<noteq> None) \<longrightarrow>
            (\<exists>rs1 r rs2. detectionRules rules = rs1 @ r # rs2
               \<and> (\<forall>r' \<in> set rs1. \<forall>p \<in> set (patterns r'). search p 0 c = None)
               \<and> (\<exists>p \<in> set (patterns r). search p 0 c \<noteq> None)
               \<and> (\<forall>rt. fst (detectMessageType rt rules c) = classifyAs r)))
       \<and> ((\<forall>r \<in> set (detectionRules rules). \<forall>p \<in> set (patterns r). search p 0 c = None) \<longrightarrow>
            fst (detectMessageType rt rules c) = keywordFallback (toLowerCase rt c))"
proof -
  have t: "\<And>r p. r \<in> set (detectionRules rules) \<Longrightarrow> p \<in> set (patterns r)
             \<Longrightarrow> fst (test p c) \<longleftrightarrow> search p 0 c \<noteq> None"
    using fresh test_from_start by blast
  show ?thesis
  proof (intro conjI impI)
    assume "\<exists>r \<in> set (detectionRules rules). \<exists>p \<in> set (patterns r). search p 0 c \<noteq> None"
    from first_match_split [OF this] obtain rs1 r rs2 where
      h: "detectionRules rules = rs1 @ r # rs2"
         "\<forall>r' \<in> set rs1. \<not> (\<exists>p \<in> set (patterns r'). search p 0 c \<noteq> None)"
         "\<exists>p \<in> set (patterns r). search p 0 c \<noteq> None"
      by blast
    have n: "\<forall>r' \<in> set rs1. \<forall>p \<in> set (patterns r'). \<not> fst (test p c)"
    proof (intro ballI)
      fix r' p
      assume m: "r' \<in> set rs1" "p \<in> set (patterns r')"
      with h(1) have "r' \<in> set (detectionRules rules)" by simp
      from t [OF this m(2)] h(2) m show "\<not> fst (test p c)" by blast
    qed
    from h(3) obtain p where m: "p \<in> set (patterns r)" "search p 0 c \<noteq> None" by blast
    from h(1) have "r \<in> set (detectionRules rules)" by simp
    from t [OF this m(1)] m have y: "\<exists>p \<in> set (patterns r). fst (test p c)" by blast
    from scan_first [OF n y] h(1)
    have "fst (scanDetectionRules (detectionRules rules) c) = Some (classifyAs r)" by simp
    then have "\<forall>rt. fst (detectMessageType rt rules c) = classifyAs r"
      by (auto simp: detectMessageType_def Let_def split: prod.splits option.splits)
    with h show "\<exists>rs1 r rs2. detectionRules rules = rs1 @ r # rs2
               \<and> (\<forall>r' \<in> set rs1. \<forall>p \<in> set (patterns r'). search p 0 c = None)
               \<and> (\<exists>p \<in> set (patterns r). search p 0 c \<noteq> None)
               \<and> (\<forall>rt. fst (detectMessageType rt rules c) = classifyAs r)"
      by blast
  next
    assume "\<forall>r \<in> set (detectionRules rules). \<forall>p \<in> set (patterns r). search p 0 c = None"
    with t have "\<forall>r \<in> set (detectionRules rules). \<forall>p \<in> set (patterns r). \<not> fst (test p c)"
      by blast
    then have "fst (scanDetectionRules (detectionRules rules) c) = None"
      by (simp add: scan_None_iff)
    then show "fst (detectMessageType rt rules c) = keywordFallback (toLowerCase rt c)"
      by (auto simp: detectMessageType_def Let_def split: prod.splits option.splits)
  qed
qed

text \<open>
  C6 fails once a pattern keeps a position. The pattern \<open>r/\<close> with the global flag
  matches "r/programming thread" (its matcher finds the match ending at index 2). The
  first call classifies the content as \<open>digest.reddit\<close> and leaves \<open>lastIndex\<close> at 2;
  the second call on the same validator searches from there, finds nothing, and
  classifies the same content as \<open>unknown\<close>. \<open>validate\<close> allows the first send and
  answers the second with the unknown-type default.
\<close>

theorem global_pattern_misses_on_second_call:
  "search (redditPattern\<lparr> global := True \<rparr>) 0 (js ''r/programming thread'') = Some 2
   \<and> fst (detectMessageType sampleRuntime globalRedditRules (js ''r/programming thread''))
       = js ''digest.reddit''
   \<and> fst (detectMessageType sampleRuntime
            (snd (detectMessageType sampleRuntime globalRedditRules
                    (js ''r/programming thread'')))
            (js ''r/programming thread''))
       = js ''unknown''
   \<and> fst (validate sampleRuntime globalRedditRules (msg ''r/programming thread'' ''boss_dm''))
       = Inr \<lparr> allowed = True, res_action = Allow, res_reason = None,
               messageType = Some (js ''digest.reddit''),
               matchedRule = Some (js ''digest.reddit''),
               suggestedDestination = None, needsConfirmation = None \<rparr>
   \<and> fst (validate sampleRuntime
            (snd (validate sampleRuntime globalRedditRules
                    (msg ''r/programming thread'' ''boss_dm'')))
            (msg ''r/programming thread'' ''boss_dm''))
       = Inr \<lparr> allowed = False, res_action = Block,
               res_reason = Some (js ''No rules for message type: unknown''),
               messageType = Some (js ''unknown''), matchedRule = None,
               suggestedDestination = None, needsConfirmation = Some True \<rparr>"
  by (simp add: example_defs globalRedditRules_def model_defs)

section \<open>Rule lookup\<close>

text \<open>
  For a category and a subtype that are not names inherited from \<open>Object.prototype\<close>
  the lookup is the two-level one: none for a category the table does not hold; the
  rule under the exact subtype (other than \<open>*\<close>) when there is one, also when the
  category has a \<open>*\<close> rule; otherwise the category's \<open>*\<close> rule, or none.
\<close>

lemma findRule_exact_before_wildcard:
  assumes "category (parseMessageType typePath) \<notin> set objectPrototypeKeys"
    and "subtype (parseMessageType typePath) \<notin> set objectPrototypeKeys"
  shows "(messageTypes rules (category (parseMessageType typePath)) = None \<longrightarrow>
            findRule rt rules typePath = Inr NoRule)
       \<and> (messageTypes rules (category (parseMessageType typePath)) = Some categoryRules \<longrightarrow>
            (subtype (parseMessageType typePath) \<noteq> js ''*''
               \<and> categoryRules (subtype (parseMessageType typePath)) = Some rule \<longrightarrow>
             findRule rt rules typePath = Inr (Rule rule))
            \<and> (subtype (parseMessageType typePath) = js ''*''
                 \<or> categoryRules (subtype (parseMessageType typePath)) = None \<longrightarrow>
               findRule rt rules typePath =
                 (case categoryRules (js ''*'') of
                    None \<Rightarrow> Inr NoRule
                  | Some wildcard \<Rightarrow> Inr (Rule wildcard))))"
  using assms
  by (auto simp: findRule_def Let_def getProperty_plain star_not_inherited split: option.splits)

text \<open>
  C7 fails on inherited names, on every runtime. The sample table has no category
  \<open>constructor\<close>, yet \<open>findRule\<close> answers "constructor.name" with the string
  "Object", the name of the inherited function. The category \<open>digest\<close> has no rule
  under \<open>toString\<close> and has a \<open>*\<close> rule, yet \<open>findRule\<close> answers "digest.toString"
  with the inherited function, not with the \<open>*\<close> rule.
\<close>

theorem findRule_returns_inherited_members:
  "messageTypes exampleRules (js ''constructor'') = None
   \<and> findRule rt exampleRules (js ''constructor.name'')
       = Inr (NotRule (JsString (js ''Object'')))
   \<and> messageTypes exampleRules (js ''digest'') = Some digestCategory
   \<and> digestCategory (js ''toString'') = None
   \<and> digestCategory (js ''*'') = Some digestAny
   \<and> findRule rt exampleRules (js ''digest.toString'')
       = Inr (NotRule (JsBuiltin (js ''toString'')))"
proof -
  have a: "messageTypes exampleRules (js ''constructor'') = None"
    by (simp add: exampleRules_def js_def)
  have b: "findRule rt exampleRules (js ''constructor.name'')
             = Inr (NotRule (JsString (js ''Object'')))"
    by (simp add: example_defs model_defs)
  have c: "messageTypes exampleRules (js ''digest'') = Some digestCategory"
    by (simp add: exampleRules_def js_def)
  have d: "digestCategory (js ''toString'') = None"
    by (simp add: digestCategory_def js_def)
  have e: "digestCategory (js ''*'') = Some digestAny"
    by (simp add: digestCategory_def js_def)
  have f: "findRule rt exampleRules (js ''digest.toString'')
             = Inr (NotRule (JsBuiltin (js ''toString'')))"
    by (simp add: example_defs model_defs)
  from a b c d e f show ?thesis by blast
qed

section \<open>The confirmation message\<close>

text \<open>
  C8. \<open>formatConfirmation\<close> is the template head, the preview and the template tail.
  The preview is the whole content when it has at most 100 code units, and its first 100
  code units followed by "..." when it has more. So the output is never longer than the
  template around it plus 100 plus the three code units of the marker.
\<close>

theorem formatConfirmation_preview:
  "formatConfirmation rules context result =
     templateHead rules (destination context) result
       @ (if length (content context) \<le> 100 then content context
          else take 100 (content context) @ js ''...'')
       @ templateTail rules result
   \<and> length (formatConfirmation rules context result)
       \<le> length (templateHead rules (destination context) result)
           + length (templateTail rules result) + 100 + length (js ''...'')"
proof -
  have shape: "formatConfirmation rules context result =
     templateHead rules (destination context) result
       @ (if length (content context) \<le> 100 then content context
          else take 100 (content context) @ js ''...'')
       @ templateTail rules result"
    by (simp add: formatConfirmation_def templateHead_def templateTail_def Let_def
             split: option.split)
  have "length (if length (content context) \<le> 100 then content context
                else take 100 (content context) @ js ''...'') \<le> 100 + length (js ''...'')"
    by simp
  with shape show ?thesis by simp
qed

section \<open>Allowed results\<close>

text \<open>
  C9. A result with allowed set has action \<open>allow\<close> and no needsConfirmation field.
  The converse fails: with \<open>allow\<close> as the unknown-type default, "weekly summary"
  gets action \<open>allow\<close> and is not allowed.
\<close>

theorem allowed_implies_allow_action:
  "(fst (validate rt rules context) = Inr result \<and> allowed result \<longrightarrow>
      res_action result = Allow \<and> needsConfirmation result = None)
   \<and> fst (validate sampleRuntime allowByDefault (msg ''weekly summary'' ''boss_dm''))
       = Inr \<lparr> allowed = False, res_action = Allow,
               res_reason = Some (js ''No rules for message type: unknown''),
               messageType = Some (js ''unknown''), matchedRule = None,
               suggestedDestination = None, needsConfirmation = Some True \<rparr>"
proof -
  have general: "fst (validate rt rules context) = Inr result \<and> allowed result \<longrightarrow>
      res_action result = Allow \<and> needsConfirmation result = None"
    by (auto simp: validate_def Let_def case_prod_beta
             split: if_splits sum.splits found.splits)
  have converse_fails:
    "fst (validate sampleRuntime allowByDefault (msg ''weekly summary'' ''boss_dm''))
       = Inr \<lparr> allowed = False, res_action = Allow,
               res_reason = Some (js ''No rules for message type: unknown''),
               messageType = Some (js ''unknown''), matchedRule = None,
               suggestedDestination = None, needsConfirmation = Some True \<rparr>"
    by (simp add: example_defs allowByDefault_def model_defs)
  from general converse_fails show ?thesis by blast
qed

theorem allowed_implies_allow_action_witness:
  "fst (validate sampleRuntime exampleRules (msg ''Morning digest'' ''boss_dm''))
     = Inr \<lparr> allowed = True, res_action = Allow, res_reason = None,
             messageType = Some (js ''digest.*''), matchedRule = Some (js ''digest.*''),
             suggestedDestination = None, needsConfirmation = None \<rparr>
   \<and> allowed \<lparr> allowed = True, res_action = Allow, res_reason = None,
               messageType = Some (js ''digest.*''), matchedRule = Some (js ''digest.*''),
               suggestedDestination = None, needsConfirmation = None \<rparr>
   \<and> res_action \<lparr> allowed = True, res_action = Allow, res_reason = None,
                  messageType = Some (js ''digest.*''), matchedRule = Some (js ''digest.*''),
                  suggestedDestination = None, needsConfirmation = None \<rparr> = Allow
   \<and> needsConfirmation \<lparr> allowed = True, res_action = Allow, res_reason = None,
                         messageType = Some (js ''digest.*''),
                         matchedRule = Some (js ''digest.*''),
                         suggestedDestination = None, needsConfirmation = None \<rparr> = None"
proof -
  let ?r = "\<lparr> allowed = True, res_action = Allow, res_reason = None,
              messageType = Some (js ''digest.*''), matchedRule = Some (js ''digest.*''),
              suggestedDestination = None, needsConfirmation = None \<rparr>"
  have h: "fst (validate sampleRuntime exampleRules (msg ''Morning digest'' ''boss_dm''))
             = Inr ?r"
    by (simp add: example_defs model_defs)
  have a: "allowed ?r" by simp
  from allowed_implies_allow_action
         [of sampleRuntime exampleRules "msg ''Morning digest'' ''boss_dm''" ?r,
          THEN conjunct1, THEN mp, OF conjI [OF h a]] h a
  show ?thesis by blast
qed

text \<open>
  C10. With the empty string as override code the override branch fires on every call:
  every content contains the empty string, so \<open>validate\<close> returns allowed, action
  \<open>allow\<close>, reason "Override code used" for every context.
\<close>

theorem empty_override_code_allows_everything:
  assumes "overrideCode rules = []"
  shows "validate rt rules context =
           (Inr \<lparr> allowed = True, res_action = Allow,
                  res_reason = Some (js ''Override code used''),
                  messageType = None, matchedRule = None, suggestedDestination = None,
                  needsConfirmation = None \<rparr>,
            rules)"
  using assms by (simp add: validate_def js_includes_empty)

theorem empty_override_code_allows_everything_witness:
  "overrideCode (exampleRules\<lparr>overrideCode := []\<rparr>) = []
   \<and> validate sampleRuntime (exampleRules\<lparr>overrideCode := []\<rparr>)
         (msg ''quarterly revenue report'' ''work_group'')
       = (Inr \<lparr> allowed = True, res_action = Allow,
                res_reason = Some (js ''Override code used''),
                messageType = None, matchedRule = None, suggestedDestination = None,
                needsConfirmation = None \<rparr>,
          exampleRules\<lparr>overrideCode := []\<rparr>)"
proof -
  have h: "overrideCode (exampleRules\<lparr>overrideCode := []\<rparr>) = []" by simp
  from empty_override_code_allows_everything [OF h] h show ?thesis by blast
qed

end
